theory Spec2Isabelle
  imports Complex_Main "HOL-Library.Char_ord" "HOL-Library.List_Lexorder"
begin

section \<open>Metrics aggregation (src/data/init_db.py)\<close>

text \<open>
  The aggregator is the SQL of \<^verbatim>\<open>main\<close> in \<^verbatim>\<open>src/data/init_db.py\<close>: the import of the
  \<^verbatim>\<open>projects\<close> table, and the \<^verbatim>\<open>base\<close> common table expression that groups it by
  \<^verbatim>\<open>developer_canonical\<close>. A table is a list of rows, a nullable column is an
  \<open>option\<close>, and SQL's three-valued comparison is written out: a comparison with NULL
  is not true, so a \<^verbatim>\<open>FILTER\<close> or \<^verbatim>\<open>WHERE\<close> drops the row.

  Only the columns read by the status counts and by the region and fuel-type aggregates
  are modelled; the capacity sums, the dates, the timeline average and the tenure
  are computed by the source from other columns and are left out.
\<close>

record ProjectRow =
  queue_id :: "string option"
  region :: "string option"
  developer_canonical :: "string option"
  type_std :: "string option"
  status_std :: "string option"

record DeveloperMetrics =
  name :: string
  total_projects :: int
  operational :: int
  withdrawn :: int
  active :: int
  under_construction :: int
  suspended :: int
  regions :: "string option"
  num_regions :: int
  fuel_types :: "string option"
  num_fuel_types :: int

text \<open>The import: \<^verbatim>\<open>WHERE developer_canonical IS NOT NULL AND developer_canonical != ''\<close>.\<close>

definition import_projects :: "ProjectRow list \<Rightarrow> ProjectRow list" where
  "import_projects rows =
     filter (\<lambda>p. developer_canonical p \<noteq> None \<and> developer_canonical p \<noteq> Some []) rows"

text \<open>Aggregates skip NULL arguments.\<close>

fun non_null :: "'a option list \<Rightarrow> 'a list" where
  "non_null [] = []"
| "non_null (None # vs) = non_null vs"
| "non_null (Some v # vs) = v # non_null vs"

text \<open>\<^verbatim>\<open>status_std = 'Operational'\<close>: exact comparison, not true on NULL.\<close>

definition sql_eq :: "string option \<Rightarrow> string \<Rightarrow> bool" where
  "sql_eq v s = (v = Some s)"

text \<open>\<^verbatim>\<open>COUNT(*) FILTER (WHERE c)\<close>.\<close>

definition COUNT_FILTER :: "(ProjectRow \<Rightarrow> bool) \<Rightarrow> ProjectRow list \<Rightarrow> int" where
  "COUNT_FILTER c g = int (length (filter c g))"

text \<open>\<^verbatim>\<open>COUNT(DISTINCT col)\<close>.\<close>

definition COUNT_DISTINCT :: "string option list \<Rightarrow> int" where
  "COUNT_DISTINCT vs = int (length (remdups (non_null vs)))"

text \<open>
  The values that \<^verbatim>\<open>STRING_AGG(DISTINCT col, ', ' ORDER BY col)\<close> joins: the distinct
  non-NULL values in ascending (bytewise) order. This list is the developer's set.
\<close>

definition DISTINCT_ORDERED :: "string option list \<Rightarrow> string list" where
  "DISTINCT_ORDERED vs = sort (remdups (non_null vs))"

fun join_with :: "string \<Rightarrow> string list \<Rightarrow> string" where
  "join_with sep [] = []"
| "join_with sep [v] = v"
| "join_with sep (v # w # vs) = v @ sep @ join_with sep (w # vs)"

text \<open>\<^verbatim>\<open>STRING_AGG\<close> over no value is NULL.\<close>

definition STRING_AGG :: "string list \<Rightarrow> string \<Rightarrow> string option" where
  "STRING_AGG vs sep = (if vs = [] then None else Some (join_with sep vs))"

text \<open>The rows that pass \<^verbatim>\<open>FILTER (WHERE type_std IS NOT NULL)\<close>.\<close>

definition typed_rows :: "ProjectRow list \<Rightarrow> ProjectRow list" where
  "typed_rows g = filter (\<lambda>p. type_std p \<noteq> None) g"

definition region_set :: "ProjectRow list \<Rightarrow> string list" where
  "region_set g = DISTINCT_ORDERED (map region g)"

definition fuel_type_set :: "ProjectRow list \<Rightarrow> string list" where
  "fuel_type_set g = DISTINCT_ORDERED (map type_std (typed_rows g))"

text \<open>One row of \<^verbatim>\<open>base\<close>: the aggregates over the group \<open>g\<close> of the developer \<open>n\<close>.\<close>

definition base_row :: "string \<Rightarrow> ProjectRow list \<Rightarrow> DeveloperMetrics" where
  "base_row n g =
     \<lparr> name = n,
       total_projects = int (length g),
       operational = COUNT_FILTER (\<lambda>p. sql_eq (status_std p) ''Operational'') g,
       withdrawn = COUNT_FILTER (\<lambda>p. sql_eq (status_std p) ''Withdrawn'') g,
       active = COUNT_FILTER (\<lambda>p. sql_eq (status_std p) ''Active'') g,
       under_construction = COUNT_FILTER (\<lambda>p. sql_eq (status_std p) ''Under Construction'') g,
       suspended = COUNT_FILTER (\<lambda>p. sql_eq (status_std p) ''Suspended'') g,
       regions = STRING_AGG (region_set g) '', '',
       num_regions = COUNT_DISTINCT (map region g),
       fuel_types = STRING_AGG (fuel_type_set g) '', '',
       num_fuel_types = COUNT_DISTINCT (map type_std (typed_rows g)) \<rparr>"

text \<open>\<^verbatim>\<open>GROUP BY developer_canonical\<close> over the imported table.\<close>

definition developer_group :: "ProjectRow list \<Rightarrow> string \<Rightarrow> ProjectRow list" where
  "developer_group rows n =
     filter (\<lambda>p. developer_canonical p = Some n) (import_projects rows)"

definition developer_names :: "ProjectRow list \<Rightarrow> string list" where
  "developer_names rows = remdups (non_null (map developer_canonical (import_projects rows)))"

definition developer_metrics :: "ProjectRow list \<Rightarrow> string \<Rightarrow> DeveloperMetrics" where
  "developer_metrics rows n = base_row n (developer_group rows n)"

text \<open>
  The \<^verbatim>\<open>developers\<close> table, one row per group. SQL leaves the order of the groups
  open; here they come in the order of first occurrence.
\<close>

definition developers :: "ProjectRow list \<Rightarrow> DeveloperMetrics list" where
  "developers rows = map (developer_metrics rows) (developer_names rows)"

section \<open>Scoring engine (src/app/scoring.py)\<close>

text \<open>
  Python's \<^verbatim>\<open>int\<close> is \<open>int\<close>. Python's \<^verbatim>\<open>float\<close> is modelled by \<open>real\<close>: the
  arithmetic is exact, and the rounding error, the infinities and the NaN of IEEE
  doubles are outside this model. \<^verbatim>\<open>Optional[float]\<close> is \<open>real option\<close>.
\<close>

record ScoreResult =
  score :: real
  completion_rate :: real
  completion_rate_score :: real
  avg_timeline_days :: "real option"
  timeline_score :: real
  project_volume :: int
  volume_score :: real
  regional_breadth :: int
  breadth_score :: real
  tech_diversity :: int
  diversity_score :: real
  active_pipeline :: int
  pipeline_score :: real
  track_record_years :: real
  depth_score :: real

record ScoringInput =
  operational :: int
  withdrawn :: int
  total_projects :: int
  avg_timeline_days :: "real option"
  num_regions :: int
  num_fuel_types :: int
  active_projects :: int
  years_since_first :: real

definition TIMELINE_EXCELLENT :: int where "TIMELINE_EXCELLENT = 365"
definition TIMELINE_POOR :: int where "TIMELINE_POOR = 365 * 6"
definition VOLUME_CAP :: int where "VOLUME_CAP = 200"
definition REGIONS_MAX :: int where "REGIONS_MAX = 9"
definition FUEL_TYPES_MAX :: int where "FUEL_TYPES_MAX = 8"
definition PIPELINE_CAP :: int where "PIPELINE_CAP = 50"
definition DEPTH_MAX :: int where "DEPTH_MAX = 20"

text \<open>
  \<^verbatim>\<open>math.log1p\<close>. It raises below \<open>-1\<close>; both callers pass a positive count.
\<close>

definition log1p :: "real \<Rightarrow> real" where
  "log1p v = ln (1 + v)"

text \<open>
  \<^verbatim>\<open>round(x, ndigits)\<close>: to the nearest multiple of \<open>10 ^ -ndigits\<close>, a tie going to the
  even one.
\<close>

definition round_half_even :: "real \<Rightarrow> int" where
  "round_half_even v =
     (let f = \<lfloor>v\<rfloor>; d = v - of_int f
      in if d < 1 / 2 then f
         else if 1 / 2 < d then f + 1
         else if even f then f else f + 1)"

definition py_round :: "real \<Rightarrow> nat \<Rightarrow> real" where
  "py_round v ndigits = of_int (round_half_even (v * 10 ^ ndigits)) / 10 ^ ndigits"

definition score_completion_rate :: "int \<Rightarrow> int \<Rightarrow> real" where
  "score_completion_rate n_operational n_withdrawn =
     (let resolved = n_operational + n_withdrawn
      in if resolved = 0 then 0
         else (of_int n_operational / of_int resolved) * 100)"

definition score_timeline :: "real option \<Rightarrow> real" where
  "score_timeline avg_days =
     (case avg_days of
        None \<Rightarrow> 50
      | Some d \<Rightarrow>
          if d \<le> 0 then 50
          else if d \<le> of_int TIMELINE_EXCELLENT then 100
          else if d \<ge> of_int TIMELINE_POOR then 0
          else 100 * (1 - (d - of_int TIMELINE_EXCELLENT)
                          / of_int (TIMELINE_POOR - TIMELINE_EXCELLENT)))"

definition score_volume :: "int \<Rightarrow> real" where
  "score_volume n_total =
     (if n_total \<le> 0 then 0
      else min 100 ((log1p (of_int n_total) / log1p (of_int VOLUME_CAP)) * 100))"

definition score_breadth :: "int \<Rightarrow> real" where
  "score_breadth n_regions = min 100 ((of_int n_regions / of_int REGIONS_MAX) * 100)"

definition score_diversity :: "int \<Rightarrow> real" where
  "score_diversity num_types = min 100 ((of_int num_types / of_int FUEL_TYPES_MAX) * 100)"

definition score_pipeline :: "int \<Rightarrow> real" where
  "score_pipeline n_active =
     (if n_active \<le> 0 then 0
      else min 100 ((log1p (of_int n_active) / log1p (of_int PIPELINE_CAP)) * 100))"

definition score_depth :: "real \<Rightarrow> real" where
  "score_depth years =
     (if years \<le> 0 then 0 else min 100 ((years / of_int DEPTH_MAX) * 100))"

text \<open>The dictionary \<^verbatim>\<open>WEIGHTS\<close>, in the order it is written.\<close>

definition WEIGHTS :: "(string \<times> real) list" where
  "WEIGHTS =
     [(''completion'', 0.30),
      (''timeline'', 0.20),
      (''volume'', 0.15),
      (''breadth'', 0.10),
      (''diversity'', 0.10),
      (''pipeline'', 0.10),
      (''depth'', 0.05)]"

text \<open>\<^verbatim>\<open>WEIGHTS[k]\<close>; every key that \<^verbatim>\<open>compute_score\<close> looks up is present.\<close>

definition weight :: "string \<Rightarrow> real" where
  "weight k = the (map_of WEIGHTS k)"

text \<open>The weighted sum of lines 112 to 120, as a function of the seven sub-scores.\<close>

definition weighted_sum :: "real \<Rightarrow> real \<Rightarrow> real \<Rightarrow> real \<Rightarrow> real \<Rightarrow> real \<Rightarrow> real \<Rightarrow> real" where
  "weighted_sum completion timeline volume breadth diversity pipeline depth =
     weight ''completion'' * completion
     + weight ''timeline'' * timeline
     + weight ''volume'' * volume
     + weight ''breadth'' * breadth
     + weight ''diversity'' * diversity
     + weight ''pipeline'' * pipeline
     + weight ''depth'' * depth"

definition compute_score :: "ScoringInput \<Rightarrow> ScoreResult option" where
  "compute_score inp =
     (let resolved = operational inp + withdrawn inp
      in if resolved < 5 then None
         else
           let completion = score_completion_rate (operational inp) (withdrawn inp);
               timeline = score_timeline (avg_timeline_days inp);
               volume = score_volume (total_projects inp);
               breadth = score_breadth (num_regions inp);
               diversity = score_diversity (num_fuel_types inp);
               pipeline = score_pipeline (active_projects inp);
               depth = score_depth (years_since_first inp);
               composite = weighted_sum completion timeline volume breadth diversity pipeline depth
           in Some
             \<lparr> score = py_round composite 1,
               completion_rate =
                 (if resolved \<noteq> 0 then py_round (of_int (operational inp) / of_int resolved) 4
                  else 0),
               completion_rate_score = py_round completion 1,
               ScoreResult.avg_timeline_days =
                 (case avg_timeline_days inp of
                    None \<Rightarrow> None
                  | Some d \<Rightarrow> if d \<noteq> 0 then Some (py_round d 1) else None),
               timeline_score = py_round timeline 1,
               project_volume = total_projects inp,
               volume_score = py_round volume 1,
               regional_breadth = num_regions inp,
               breadth_score = py_round breadth 1,
               tech_diversity = num_fuel_types inp,
               diversity_score = py_round diversity 1,
               active_pipeline = active_projects inp,
               pipeline_score = py_round pipeline 1,
               track_record_years = py_round (years_since_first inp) 1,
               depth_score = py_round depth 1 \<rparr>)"

section \<open>The qualification gate\<close>

text \<open>
  C1. Whenever operational + withdrawn is below 5, compute_score returns None (the
  unqualified result, carrying no composite score, no sub-score and no breakdown),
  whatever the other fields hold.
\<close>

theorem C1_unqualified_below_five:
  "operational inp + withdrawn inp < 5 \<Longrightarrow> compute_score inp = None"
  by (simp add: compute_score_def Let_def)

theorem C1_unqualified_below_five_witness:
  "operational \<lparr> operational = 1, withdrawn = 1, total_projects = 400,
                  avg_timeline_days = Some 300, num_regions = 9, num_fuel_types = 8,
                  active_projects = 60, years_since_first = 25 \<rparr>
   + withdrawn \<lparr> operational = 1, withdrawn = 1, total_projects = 400,
                  avg_timeline_days = Some 300, num_regions = 9, num_fuel_types = 8,
                  active_projects = 60, years_since_first = 25 \<rparr> < 5
   \<and> compute_score \<lparr> operational = 1, withdrawn = 1, total_projects = 400,
                  avg_timeline_days = Some 300, num_regions = 9, num_fuel_types = 8,
                  active_projects = 60, years_since_first = 25 \<rparr> = None"
  using C1_unqualified_below_five
    [of "\<lparr> operational = 1, withdrawn = 1, total_projects = 400,
           avg_timeline_days = Some 300, num_regions = 9, num_fuel_types = 8,
           active_projects = 60, years_since_first = 25 \<rparr>"]
  by simp

section \<open>Rounding and the ranges of the sub-scores\<close>

lemma round_half_even_nearest:
  "of_int k - 1 / 2 < v \<Longrightarrow> v < of_int k + 1 / 2 \<Longrightarrow> round_half_even v = k"
proof -
  assume a: "of_int k - 1 / 2 < v" and b: "v < of_int k + 1 / 2"
  have "\<lfloor>v\<rfloor> = k \<or> \<lfloor>v\<rfloor> = k - 1"
    using a b by linarith
  then show ?thesis
  proof
    assume f: "\<lfloor>v\<rfloor> = k"
    then have "v - of_int \<lfloor>v\<rfloor> < 1 / 2" using b by simp
    then show ?thesis using f by (simp add: round_half_even_def Let_def)
  next
    assume f: "\<lfloor>v\<rfloor> = k - 1"
    then have "1 / 2 < v - of_int \<lfloor>v\<rfloor>" using a by simp
    then show ?thesis using f by (simp add: round_half_even_def Let_def)
  qed
qed

lemma round_half_even_error: "\<bar>of_int (round_half_even v) - v\<bar> \<le> 1 / 2"
  unfolding round_half_even_def Let_def
  by (auto simp: abs_le_iff)

lemma round_half_even_bounds:
  "of_int a \<le> v \<Longrightarrow> v \<le> of_int b \<Longrightarrow> a \<le> round_half_even v \<and> round_half_even v \<le> b"
proof -
  assume a: "of_int a \<le> v" and b: "v \<le> of_int b"
  have fa: "a \<le> \<lfloor>v\<rfloor>" using a by (simp add: le_floor_iff)
  have fb: "\<lfloor>v\<rfloor> \<le> b" using b by (simp add: floor_le_iff)
  show ?thesis
  proof (cases "\<lfloor>v\<rfloor> = b")
    case True
    then have "v - of_int \<lfloor>v\<rfloor> \<le> 0" using b by simp
    then have "v - of_int \<lfloor>v\<rfloor> < 1 / 2" by linarith
    then show ?thesis using True fa by (simp add: round_half_even_def Let_def)
  next
    case False
    then have "\<lfloor>v\<rfloor> + 1 \<le> b" using fb by linarith
    then show ?thesis using fa by (simp add: round_half_even_def Let_def)
  qed
qed

lemma py_round_error1: "\<bar>py_round v 1 - v\<bar> \<le> 1 / 20"
proof -
  have "\<bar>of_int (round_half_even (v * 10)) - v * 10\<bar> \<le> 1 / 2"
    by (rule round_half_even_error)
  then have "\<bar>of_int (round_half_even (v * 10)) / 10 - v\<bar> \<le> 1 / 20"
    by linarith
  then show ?thesis by (simp add: py_round_def)
qed

lemma py_round_bounds1: "0 \<le> v \<Longrightarrow> v \<le> 100 \<Longrightarrow> 0 \<le> py_round v 1 \<and> py_round v 1 \<le> 100"
proof -
  assume a: "0 \<le> v" and b: "v \<le> 100"
  have "0 \<le> round_half_even (v * 10) \<and> round_half_even (v * 10) \<le> 1000"
    using a b by (intro round_half_even_bounds) simp_all
  then show ?thesis by (simp add: py_round_def)
qed

lemma py_round_nearest:
  "of_int k - 1 / 2 < v * 10 ^ n \<Longrightarrow> v * 10 ^ n < of_int k + 1 / 2 \<Longrightarrow>
   py_round v n = of_int k / 10 ^ n"
  by (simp add: py_round_def round_half_even_nearest)

lemma weight_values:
  "weight ''completion'' = 3 / 10"
  "weight ''timeline'' = 2 / 10"
  "weight ''volume'' = 15 / 100"
  "weight ''breadth'' = 1 / 10"
  "weight ''diversity'' = 1 / 10"
  "weight ''pipeline'' = 1 / 10"
  "weight ''depth'' = 5 / 100"
  by (simp_all add: weight_def WEIGHTS_def)

lemma weighted_sum_eq:
  "weighted_sum c t v b d p e =
     (30 * c + 20 * t + 15 * v + 10 * b + 10 * d + 10 * p + 5 * e) / 100"
  by (simp add: weighted_sum_def weight_values)

lemma weighted_sum_range:
  assumes "0 \<le> c" "c \<le> 100" "0 \<le> t" "t \<le> 100" "0 \<le> v" "v \<le> 100" "0 \<le> b" "b \<le> 100"
    "0 \<le> d" "d \<le> 100" "0 \<le> p" "p \<le> 100" "0 \<le> e" "e \<le> 100"
  shows "0 \<le> weighted_sum c t v b d p e \<and> weighted_sum c t v b d p e \<le> 100"
  using assms by (simp add: weighted_sum_eq)

lemma pct_range: "0 \<le> q \<Longrightarrow> q \<le> 1 \<Longrightarrow> 0 \<le> q * 100 \<and> q * 100 \<le> (100::real)"
  by simp

lemma min_pct_range: "0 \<le> q \<Longrightarrow> 0 \<le> min 100 (q * 100) \<and> min 100 (q * 100) \<le> (100::real)"
  by simp

lemma score_completion_rate_range:
  assumes "0 \<le> a" "0 \<le> w"
  shows "0 \<le> score_completion_rate a w \<and> score_completion_rate a w \<le> 100"
proof (cases "a + w = 0")
  case True
  then show ?thesis by (simp add: score_completion_rate_def)
next
  case False
  then have pos: "0 < real_of_int (a + w)" using assms by simp
  have "real_of_int a \<le> real_of_int (a + w)" using assms by simp
  then have le: "real_of_int a / real_of_int (a + w) \<le> 1" using pos by (simp add: divide_le_eq)
  have ge: "0 \<le> real_of_int a / real_of_int (a + w)" using assms pos by simp
  have eq: "score_completion_rate a w = (real_of_int a / real_of_int (a + w)) * 100"
    using False by (simp add: score_completion_rate_def Let_def)
  show ?thesis unfolding eq using ge le by (rule pct_range)
qed

lemma score_timeline_range: "0 \<le> score_timeline x \<and> score_timeline x \<le> 100"
  by (cases x) (auto simp: score_timeline_def TIMELINE_EXCELLENT_def TIMELINE_POOR_def)

lemma log_ratio_nonneg: "0 < n \<Longrightarrow> 0 < c \<Longrightarrow> 0 \<le> log1p (of_int n) / log1p (of_int c)"
  by (simp add: log1p_def)

lemma score_volume_range: "0 \<le> score_volume n \<and> score_volume n \<le> 100"
proof (cases "n \<le> 0")
  case True
  then show ?thesis by (simp add: score_volume_def)
next
  case False
  then have eq: "score_volume n = min 100 ((log1p (of_int n) / log1p (of_int VOLUME_CAP)) * 100)"
    by (simp add: score_volume_def)
  have "0 \<le> log1p (of_int n) / log1p (of_int VOLUME_CAP)"
    using False by (intro log_ratio_nonneg) (simp_all add: VOLUME_CAP_def)
  then show ?thesis unfolding eq by (rule min_pct_range)
qed

lemma score_pipeline_range: "0 \<le> score_pipeline n \<and> score_pipeline n \<le> 100"
proof (cases "n \<le> 0")
  case True
  then show ?thesis by (simp add: score_pipeline_def)
next
  case False
  then have eq: "score_pipeline n = min 100 ((log1p (of_int n) / log1p (of_int PIPELINE_CAP)) * 100)"
    by (simp add: score_pipeline_def)
  have "0 \<le> log1p (of_int n) / log1p (of_int PIPELINE_CAP)"
    using False by (intro log_ratio_nonneg) (simp_all add: PIPELINE_CAP_def)
  then show ?thesis unfolding eq by (rule min_pct_range)
qed

lemma score_breadth_range: "0 \<le> n \<Longrightarrow> 0 \<le> score_breadth n \<and> score_breadth n \<le> 100"
  by (simp add: score_breadth_def REGIONS_MAX_def)

lemma score_diversity_range: "0 \<le> n \<Longrightarrow> 0 \<le> score_diversity n \<and> score_diversity n \<le> 100"
  by (simp add: score_diversity_def FUEL_TYPES_MAX_def)

lemma score_depth_range: "0 \<le> score_depth y \<and> score_depth y \<le> 100"
  by (simp add: score_depth_def DEPTH_MAX_def)

lemma compute_score_qualified:
  "5 \<le> operational inp + withdrawn inp \<Longrightarrow> \<exists>r. compute_score inp = Some r"
  by (simp add: compute_score_def Let_def)

lemma compute_score_fields:
  assumes "compute_score inp = Some r"
  shows "score r = py_round (weighted_sum
            (score_completion_rate (operational inp) (withdrawn inp))
            (score_timeline (avg_timeline_days inp))
            (score_volume (total_projects inp))
            (score_breadth (num_regions inp))
            (score_diversity (num_fuel_types inp))
            (score_pipeline (active_projects inp))
            (score_depth (years_since_first inp))) 1"
    and "completion_rate_score r = py_round (score_completion_rate (operational inp) (withdrawn inp)) 1"
    and "timeline_score r = py_round (score_timeline (avg_timeline_days inp)) 1"
    and "volume_score r = py_round (score_volume (total_projects inp)) 1"
    and "breadth_score r = py_round (score_breadth (num_regions inp)) 1"
    and "diversity_score r = py_round (score_diversity (num_fuel_types inp)) 1"
    and "pipeline_score r = py_round (score_pipeline (active_projects inp)) 1"
    and "depth_score r = py_round (score_depth (years_since_first inp)) 1"
  using assms by (auto simp: compute_score_def Let_def split: if_splits)

section \<open>Ranges of the scores\<close>

text \<open>
  C2. For every input whose six counts (operational, withdrawn, total_projects,
  num_regions, num_fuel_types, active_projects) are non-negative: when compute_score
  returns a result, the composite score and each of the seven sub-scores lie between 0
  and 100.
\<close>

theorem C2_scores_in_range:
  assumes "0 \<le> operational inp" "0 \<le> withdrawn inp" "0 \<le> total_projects inp"
    "0 \<le> num_regions inp" "0 \<le> num_fuel_types inp" "0 \<le> active_projects inp"
    and "compute_score inp = Some r"
  shows "(0 \<le> score r \<and> score r \<le> 100)
       \<and> (0 \<le> completion_rate_score r \<and> completion_rate_score r \<le> 100)
       \<and> (0 \<le> timeline_score r \<and> timeline_score r \<le> 100)
       \<and> (0 \<le> volume_score r \<and> volume_score r \<le> 100)
       \<and> (0 \<le> breadth_score r \<and> breadth_score r \<le> 100)
       \<and> (0 \<le> diversity_score r \<and> diversity_score r \<le> 100)
       \<and> (0 \<le> pipeline_score r \<and> pipeline_score r \<le> 100)
       \<and> (0 \<le> depth_score r \<and> depth_score r \<le> 100)"
proof -
  note f = compute_score_fields [OF assms(7)]
  have c: "0 \<le> score_completion_rate (operational inp) (withdrawn inp)
           \<and> score_completion_rate (operational inp) (withdrawn inp) \<le> 100"
    using assms(1,2) by (rule score_completion_rate_range)
  note t = score_timeline_range [of "avg_timeline_days inp"]
  note v = score_volume_range [of "total_projects inp"]
  note b = score_breadth_range [OF assms(4)]
  note d = score_diversity_range [OF assms(5)]
  note p = score_pipeline_range [of "active_projects inp"]
  note e = score_depth_range [of "years_since_first inp"]
  have w: "0 \<le> weighted_sum
            (score_completion_rate (operational inp) (withdrawn inp))
            (score_timeline (avg_timeline_days inp))
            (score_volume (total_projects inp))
            (score_breadth (num_regions inp))
            (score_diversity (num_fuel_types inp))
            (score_pipeline (active_projects inp))
            (score_depth (years_since_first inp))
          \<and> weighted_sum
            (score_completion_rate (operational inp) (withdrawn inp))
            (score_timeline (avg_timeline_days inp))
            (score_volume (total_projects inp))
            (score_breadth (num_regions inp))
            (score_diversity (num_fuel_types inp))
            (score_pipeline (active_projects inp))
            (score_depth (years_since_first inp)) \<le> 100"
    using c t v b d p e by (intro weighted_sum_range) simp_all
  show ?thesis
    unfolding f
    using c t v b d p e w by (intro conjI py_round_bounds1) simp_all
qed

theorem C2_scores_in_range_witness:
  "\<exists>r. compute_score \<lparr> operational = 8, withdrawn = 2, total_projects = 10,
            avg_timeline_days = Some 600, num_regions = 3, num_fuel_types = 2,
            active_projects = 5, years_since_first = 10 \<rparr> = Some r
     \<and> (0 \<le> score r \<and> score r \<le> 100)
     \<and> (0 \<le> completion_rate_score r \<and> completion_rate_score r \<le> 100)
     \<and> (0 \<le> timeline_score r \<and> timeline_score r \<le> 100)
     \<and> (0 \<le> volume_score r \<and> volume_score r \<le> 100)
     \<and> (0 \<le> breadth_score r \<and> breadth_score r \<le> 100)
     \<and> (0 \<le> diversity_score r \<and> diversity_score r \<le> 100)
     \<and> (0 \<le> pipeline_score r \<and> pipeline_score r \<le> 100)
     \<and> (0 \<le> depth_score r \<and> depth_score r \<le> 100)"
proof -
  let ?inp = "\<lparr> operational = 8, withdrawn = 2, total_projects = 10,
            avg_timeline_days = Some 600, num_regions = 3, num_fuel_types = 2,
            active_projects = 5, years_since_first = 10 \<rparr>"
  obtain r where r: "compute_score ?inp = Some r"
    using compute_score_qualified [of ?inp] by auto
  have "(0 \<le> score r \<and> score r \<le> 100)
     \<and> (0 \<le> completion_rate_score r \<and> completion_rate_score r \<le> 100)
     \<and> (0 \<le> timeline_score r \<and> timeline_score r \<le> 100)
     \<and> (0 \<le> volume_score r \<and> volume_score r \<le> 100)
     \<and> (0 \<le> breadth_score r \<and> breadth_score r \<le> 100)
     \<and> (0 \<le> diversity_score r \<and> diversity_score r \<le> 100)
     \<and> (0 \<le> pipeline_score r \<and> pipeline_score r \<le> 100)
     \<and> (0 \<le> depth_score r \<and> depth_score r \<le> 100)"
    by (rule C2_scores_in_range [OF _ _ _ _ _ _ r]) simp_all
  with r show ?thesis by blast
qed

section \<open>The timeline curve\<close>

text \<open>
  C4. The timeline sub-score is exactly 100 for a positive average duration of at most 365
  days, exactly 0 from 2190 days on, the linear interpolation between these two points
  strictly in between, and exactly 50 when the average is None or not positive.
\<close>

theorem C4_timeline_curve:
  "(0 < d \<and> d \<le> 365 \<longrightarrow> score_timeline (Some d) = 100)
   \<and> (2190 \<le> d \<longrightarrow> score_timeline (Some d) = 0)
   \<and> (365 < d \<and> d < 2190 \<longrightarrow>
        score_timeline (Some d) = 100 + (0 - 100) * (d - 365) / (2190 - 365))
   \<and> score_timeline None = 50
   \<and> (d \<le> 0 \<longrightarrow> score_timeline (Some d) = 50)"
  by (simp add: score_timeline_def TIMELINE_EXCELLENT_def TIMELINE_POOR_def field_simps)

theorem C4_timeline_curve_witness:
  "score_timeline (Some 365) = 100
   \<and> score_timeline (Some 1) = 100
   \<and> score_timeline (Some 2190) = 0
   \<and> score_timeline (Some 5000) = 0
   \<and> score_timeline (Some 600) = 100 + (0 - 100) * (600 - 365) / (2190 - 365)
   \<and> score_timeline None = 50
   \<and> score_timeline (Some 0) = 50
   \<and> score_timeline (Some (- 30)) = 50"
  using C4_timeline_curve [of 365] C4_timeline_curve [of 1] C4_timeline_curve [of 2190]
    C4_timeline_curve [of 5000] C4_timeline_curve [of 600] C4_timeline_curve [of 0]
    C4_timeline_curve [of "- 30"]
  by simp

lemma ratio_mono_numerator:
  fixes x x' w :: real
  assumes "0 \<le> x" "x \<le> x'" "0 \<le> w" "0 < x + w"
  shows "x / (x + w) \<le> x' / (x' + w)"
proof -
  have p: "0 < x + w" "0 < x' + w" using assms by simp_all
  have "x * w \<le> x' * w" using assms by (simp add: mult_right_mono)
  then have "x * (x' + w) \<le> x' * (x + w)" by (simp add: algebra_simps)
  then have "x \<le> x' * (x + w) / (x' + w)" using p(2) by (simp add: pos_le_divide_eq)
  then have "x \<le> x' / (x' + w) * (x + w)" by simp
  then show ?thesis using p(1) by (simp only: pos_divide_le_eq)
qed

lemma ratio_antimono_denominator:
  fixes x w w' :: real
  assumes "0 \<le> x" "0 \<le> w" "w \<le> w'" "0 < x + w"
  shows "x / (x + w') \<le> x / (x + w)"
  using assms by (intro divide_left_mono) simp_all

section \<open>Monotonicity of the completion sub-score\<close>

text \<open>
  C7. For non-negative counts with operational + withdrawn > 0, the completion sub-score
  does not decrease when operational grows and withdrawn is fixed, and does not increase
  when withdrawn grows and operational is fixed.
\<close>

theorem C7_completion_monotone:
  "(0 \<le> a \<and> a \<le> a' \<and> 0 \<le> w \<and> 0 < a + w \<longrightarrow>
      score_completion_rate a w \<le> score_completion_rate a' w)
   \<and> (0 \<le> a \<and> 0 \<le> w \<and> w \<le> w' \<and> 0 < a + w \<longrightarrow>
      score_completion_rate a w' \<le> score_completion_rate a w)"
proof (intro conjI impI)
  assume h: "0 \<le> a \<and> a \<le> a' \<and> 0 \<le> w \<and> 0 < a + w"
  then have "real_of_int a / (real_of_int a + real_of_int w)
             \<le> real_of_int a' / (real_of_int a' + real_of_int w)"
    by (intro ratio_mono_numerator) simp_all
  then have "real_of_int a / (real_of_int a + real_of_int w) * 100
             \<le> real_of_int a' / (real_of_int a' + real_of_int w) * 100"
    by (simp only: mult_le_cancel_right) simp
  moreover have "a + w \<noteq> 0" "a' + w \<noteq> 0" using h by simp_all
  ultimately show "score_completion_rate a w \<le> score_completion_rate a' w"
    by (simp add: score_completion_rate_def Let_def)
next
  assume h: "0 \<le> a \<and> 0 \<le> w \<and> w \<le> w' \<and> 0 < a + w"
  then have "real_of_int a / (real_of_int a + real_of_int w')
             \<le> real_of_int a / (real_of_int a + real_of_int w)"
    by (intro ratio_antimono_denominator) simp_all
  then have "real_of_int a / (real_of_int a + real_of_int w') * 100
             \<le> real_of_int a / (real_of_int a + real_of_int w) * 100"
    by (simp only: mult_le_cancel_right) simp
  moreover have "a + w \<noteq> 0" "a + w' \<noteq> 0" using h by simp_all
  ultimately show "score_completion_rate a w' \<le> score_completion_rate a w"
    by (simp add: score_completion_rate_def Let_def)
qed

theorem C7_completion_monotone_witness:
  "score_completion_rate 3 2 \<le> score_completion_rate 8 2
   \<and> score_completion_rate 3 7 \<le> score_completion_rate 3 2"
  using C7_completion_monotone [of 3 8 2 7] by simp

lemma log_score_mono:
  fixes n n' c :: int
  assumes "0 < n" "n \<le> n'" "0 < c"
  shows "min 100 ((log1p (of_int n) / log1p (of_int c)) * 100)
         \<le> min (100::real) ((log1p (of_int n') / log1p (of_int c)) * 100)"
proof -
  have c: "0 < log1p (real_of_int c)" using assms(3) by (simp add: log1p_def)
  have "log1p (real_of_int n) \<le> log1p (real_of_int n')"
    using assms(1,2) by (simp add: log1p_def)
  then have "log1p (real_of_int n) / log1p (real_of_int c)
             \<le> log1p (real_of_int n') / log1p (real_of_int c)"
    using c by (simp add: divide_right_mono)
  then have "(log1p (real_of_int n) / log1p (real_of_int c)) * 100
             \<le> (log1p (real_of_int n') / log1p (real_of_int c)) * 100"
    by (simp only: mult_le_cancel_right) simp
  then show ?thesis by (rule min.mono [OF order_refl])
qed

lemma log_score_cap:
  fixes n c :: int
  assumes "0 < c" "c \<le> n"
  shows "min 100 ((log1p (of_int n) / log1p (of_int c)) * 100) = (100::real)"
proof -
  have c: "0 < log1p (real_of_int c)" using assms(1) by (simp add: log1p_def)
  have "log1p (real_of_int c) \<le> log1p (real_of_int n)"
    using assms by (simp add: log1p_def)
  then have "1 \<le> log1p (real_of_int n) / log1p (real_of_int c)"
    using c by (simp add: le_divide_eq)
  then have "1 * 100 \<le> (log1p (real_of_int n) / log1p (real_of_int c)) * 100"
    by (simp only: mult_le_cancel_right) simp
  then have "100 \<le> (log1p (real_of_int n) / log1p (real_of_int c)) * 100"
    by simp
  then show ?thesis by (rule min_absorb1)
qed

lemma score_volume_mono: "n \<le> n' \<Longrightarrow> score_volume n \<le> score_volume n'"
proof (cases "n \<le> 0")
  case True
  then have "score_volume n = 0" by (simp add: score_volume_def)
  then show ?thesis using score_volume_range [of n'] by simp
next
  case False
  assume "n \<le> n'"
  with False have "0 < n" "n \<le> n'" "\<not> n' \<le> 0" by simp_all
  then show ?thesis
    using log_score_mono [of n n' VOLUME_CAP]
    by (simp only: score_volume_def if_False) (simp add: VOLUME_CAP_def)
qed

lemma score_pipeline_mono: "n \<le> n' \<Longrightarrow> score_pipeline n \<le> score_pipeline n'"
proof (cases "n \<le> 0")
  case True
  then have "score_pipeline n = 0" by (simp add: score_pipeline_def)
  then show ?thesis using score_pipeline_range [of n'] by simp
next
  case False
  assume "n \<le> n'"
  with False have "0 < n" "n \<le> n'" "\<not> n' \<le> 0" by simp_all
  then show ?thesis
    using log_score_mono [of n n' PIPELINE_CAP]
    by (simp only: score_pipeline_def if_False) (simp add: PIPELINE_CAP_def)
qed

lemma score_volume_cap: "200 \<le> n \<Longrightarrow> score_volume n = 100"
  using log_score_cap [of VOLUME_CAP n]
  by (simp only: score_volume_def) (simp add: VOLUME_CAP_def)

lemma score_pipeline_cap: "50 \<le> n \<Longrightarrow> score_pipeline n = 100"
  using log_score_cap [of PIPELINE_CAP n]
  by (simp only: score_pipeline_def) (simp add: PIPELINE_CAP_def)

lemma score_breadth_cap: "9 \<le> n \<Longrightarrow> score_breadth n = 100"
  by (simp add: score_breadth_def REGIONS_MAX_def)

section \<open>Volume, pipeline and breadth caps\<close>

text \<open>
  C8. The volume and pipeline sub-scores are non-decreasing in total_projects and in
  active_projects, are never above 100, and are exactly 100 from 200 projects and from 50
  active projects on; the breadth sub-score is exactly 100 at 9 regions and at every
  number of regions above 9, such as 18.
\<close>

theorem C8_volume_pipeline_breadth:
  "(t \<le> t' \<longrightarrow> score_volume t \<le> score_volume t')
   \<and> (a \<le> a' \<longrightarrow> score_pipeline a \<le> score_pipeline a')
   \<and> (200 \<le> t \<longrightarrow> score_volume t = 100)
   \<and> (50 \<le> a \<longrightarrow> score_pipeline a = 100)
   \<and> score_volume t \<le> 100
   \<and> score_pipeline a \<le> 100
   \<and> score_breadth 9 = 100
   \<and> (9 < n \<longrightarrow> score_breadth n = 100)
   \<and> score_breadth 18 = 100"
  using score_volume_range [of t] score_pipeline_range [of a]
  by (simp add: score_volume_mono score_pipeline_mono score_volume_cap score_pipeline_cap
      score_breadth_cap)

theorem C8_volume_pipeline_breadth_witness:
  "score_volume 200 \<le> score_volume 350
   \<and> score_pipeline 50 \<le> score_pipeline 75
   \<and> score_volume 200 = 100
   \<and> score_pipeline 50 = 100
   \<and> score_breadth 10 = 100"
  using C8_volume_pipeline_breadth [of 200 350 50 75 10] by simp

section \<open>The reported average timeline\<close>

text \<open>
  C10. In a result of compute_score the field avg_timeline_days is None exactly when the
  input's avg_timeline_days is None or is 0; a negative input is reported rounded, not
  None; in all these cases the timeline sub-score is the neutral 50. The results for
  None and for 0 are equal in every field, so the output does not tell them apart.
\<close>

theorem C10_zero_timeline_reported_as_none:
  assumes "compute_score inp = Some r"
  shows "(ScoreResult.avg_timeline_days r = None
            \<longleftrightarrow> avg_timeline_days inp = None \<or> avg_timeline_days inp = Some 0)
       \<and> (\<forall>d. d < 0 \<and> avg_timeline_days inp = Some d
              \<longrightarrow> ScoreResult.avg_timeline_days r = Some (py_round d 1))
       \<and> (avg_timeline_days inp = None \<or> (\<exists>d. d \<le> 0 \<and> avg_timeline_days inp = Some d)
              \<longrightarrow> timeline_score r = 50)
       \<and> compute_score (inp\<lparr>avg_timeline_days := Some 0\<rparr>)
           = compute_score (inp\<lparr>avg_timeline_days := None\<rparr>)"
proof -
  have r50: "py_round 50 1 = 50"
    by (simp add: py_round_def round_half_even_def)
  have f: "ScoreResult.avg_timeline_days r =
             (case avg_timeline_days inp of None \<Rightarrow> None
              | Some d \<Rightarrow> if d \<noteq> 0 then Some (py_round d 1) else None)"
    and t: "timeline_score r = py_round (score_timeline (avg_timeline_days inp)) 1"
    using assms by (auto simp: compute_score_def Let_def split: if_splits)
  have 1: "ScoreResult.avg_timeline_days r = None
            \<longleftrightarrow> avg_timeline_days inp = None \<or> avg_timeline_days inp = Some 0"
    unfolding f by (simp split: option.split)
  have 2: "\<forall>d. d < 0 \<and> avg_timeline_days inp = Some d
              \<longrightarrow> ScoreResult.avg_timeline_days r = Some (py_round d 1)"
    unfolding f by simp
  have 3: "avg_timeline_days inp = None \<or> (\<exists>d. d \<le> 0 \<and> avg_timeline_days inp = Some d)
              \<longrightarrow> timeline_score r = 50"
  proof
    assume "avg_timeline_days inp = None \<or> (\<exists>d. d \<le> 0 \<and> avg_timeline_days inp = Some d)"
    then have "score_timeline (avg_timeline_days inp) = 50"
      by (auto simp: score_timeline_def)
    then show "timeline_score r = 50" unfolding t by (simp only: r50)
  qed
  have 4: "compute_score (inp\<lparr>avg_timeline_days := Some 0\<rparr>)
           = compute_score (inp\<lparr>avg_timeline_days := None\<rparr>)"
    by (simp add: compute_score_def Let_def score_timeline_def)
  from 1 2 3 4 show ?thesis by blast
qed

theorem C10_zero_timeline_reported_as_none_witness:
  "(\<exists>r. compute_score \<lparr> operational = 8, withdrawn = 2, total_projects = 10,
            avg_timeline_days = Some 0, num_regions = 3, num_fuel_types = 2,
            active_projects = 5, years_since_first = 10 \<rparr> = Some r
      \<and> ScoreResult.avg_timeline_days r = None
      \<and> timeline_score r = 50)
   \<and> (\<exists>r. compute_score \<lparr> operational = 8, withdrawn = 2, total_projects = 10,
            avg_timeline_days = Some (- 30), num_regions = 3, num_fuel_types = 2,
            active_projects = 5, years_since_first = 10 \<rparr> = Some r
      \<and> ScoreResult.avg_timeline_days r = Some (py_round (- 30) 1)
      \<and> timeline_score r = 50)"
proof
  let ?inp = "\<lparr> operational = 8, withdrawn = 2, total_projects = 10,
            avg_timeline_days = Some 0, num_regions = 3, num_fuel_types = 2,
            active_projects = 5, years_since_first = 10 \<rparr>"
  obtain r where r: "compute_score ?inp = Some r"
    using compute_score_qualified [of ?inp] by auto
  from C10_zero_timeline_reported_as_none [OF r]
  have "ScoreResult.avg_timeline_days r = None \<and> timeline_score r = 50" by simp
  with r show "\<exists>r. compute_score ?inp = Some r
      \<and> ScoreResult.avg_timeline_days r = None \<and> timeline_score r = 50" by blast
next
  let ?inp = "\<lparr> operational = 8, withdrawn = 2, total_projects = 10,
            avg_timeline_days = Some (- 30), num_regions = 3, num_fuel_types = 2,
            active_projects = 5, years_since_first = 10 \<rparr>"
  obtain r where r: "compute_score ?inp = Some r"
    using compute_score_qualified [of ?inp] by auto
  from C10_zero_timeline_reported_as_none [OF r]
  have "ScoreResult.avg_timeline_days r = Some (py_round (- 30) 1) \<and> timeline_score r = 50"
    by simp
  with r show "\<exists>r. compute_score ?inp = Some r
      \<and> ScoreResult.avg_timeline_days r = Some (py_round (- 30) 1)
      \<and> timeline_score r = 50" by blast
qed

lemma weights_sum: "sum_list (map snd WEIGHTS) = 1"
  by (simp add: WEIGHTS_def)

lemma weighted_sum_diff:
  assumes "\<bar>c' - c\<bar> \<le> 1 / 20" "\<bar>t' - t\<bar> \<le> 1 / 20" "\<bar>v' - v\<bar> \<le> 1 / 20"
    "\<bar>b' - b\<bar> \<le> 1 / 20" "\<bar>d' - d\<bar> \<le> 1 / 20" "\<bar>p' - p\<bar> \<le> 1 / 20" "\<bar>e' - e\<bar> \<le> 1 / 20"
  shows "\<bar>weighted_sum c' t' v' b' d' p' e' - weighted_sum c t v b d p e\<bar> \<le> 1 / 20"
  using assms unfolding weighted_sum_eq abs_le_iff by (simp add: field_simps)

section \<open>Weights and the composite\<close>

text \<open>
  C3 (as amended). The seven weights sum to exactly 1. When compute_score returns a
  result, the returned composite is within 0.05 of the weighted sum of the seven
  sub-scores before they are rounded, and within 0.1 of the weighted sum of the seven
  returned (rounded) sub-scores.
\<close>

theorem C3_weights_and_composite:
  "sum_list (map snd WEIGHTS) = 1
   \<and> (compute_score inp = Some r \<longrightarrow>
        \<bar>score r - weighted_sum
             (score_completion_rate (operational inp) (withdrawn inp))
             (score_timeline (avg_timeline_days inp))
             (score_volume (total_projects inp))
             (score_breadth (num_regions inp))
             (score_diversity (num_fuel_types inp))
             (score_pipeline (active_projects inp))
             (score_depth (years_since_first inp))\<bar> \<le> 5 / 100
      \<and> \<bar>score r - weighted_sum (completion_rate_score r) (timeline_score r) (volume_score r)
             (breadth_score r) (diversity_score r) (pipeline_score r) (depth_score r)\<bar>
          \<le> 1 / 10)"
proof (intro conjI impI)
  show "sum_list (map snd WEIGHTS) = 1" by (rule weights_sum)
next
  assume r: "compute_score inp = Some r"
  note f = compute_score_fields [OF r]
  let ?w = "weighted_sum
             (score_completion_rate (operational inp) (withdrawn inp))
             (score_timeline (avg_timeline_days inp))
             (score_volume (total_projects inp))
             (score_breadth (num_regions inp))
             (score_diversity (num_fuel_types inp))
             (score_pipeline (active_projects inp))
             (score_depth (years_since_first inp))"
  let ?w' = "weighted_sum (completion_rate_score r) (timeline_score r) (volume_score r)
             (breadth_score r) (diversity_score r) (pipeline_score r) (depth_score r)"
  have a: "\<bar>score r - ?w\<bar> \<le> 1 / 20"
    unfolding f(1) by (rule py_round_error1)
  have b: "\<bar>?w' - ?w\<bar> \<le> 1 / 20"
    unfolding f by (intro weighted_sum_diff py_round_error1)
  show "\<bar>score r - ?w\<bar> \<le> 5 / 100" using a by simp
  show "\<bar>score r - ?w'\<bar> \<le> 1 / 10" using a b by linarith
qed

theorem C3_weights_and_composite_witness:
  "\<exists>r. compute_score \<lparr> operational = 8, withdrawn = 2, total_projects = 10,
            avg_timeline_days = Some 600, num_regions = 3, num_fuel_types = 2,
            active_projects = 5, years_since_first = 10 \<rparr> = Some r
     \<and> \<bar>score r - weighted_sum (completion_rate_score r) (timeline_score r) (volume_score r)
             (breadth_score r) (diversity_score r) (pipeline_score r) (depth_score r)\<bar>
          \<le> 1 / 10"
proof -
  let ?inp = "\<lparr> operational = 8, withdrawn = 2, total_projects = 10,
            avg_timeline_days = Some 600, num_regions = 3, num_fuel_types = 2,
            active_projects = 5, years_since_first = 10 \<rparr>"
  obtain r where r: "compute_score ?inp = Some r"
    using compute_score_qualified [of ?inp] by auto
  from C3_weights_and_composite [of ?inp r] r
  have "\<bar>score r - weighted_sum (completion_rate_score r) (timeline_score r) (volume_score r)
             (breadth_score r) (diversity_score r) (pipeline_score r) (depth_score r)\<bar>
          \<le> 1 / 10" by blast
  with r show ?thesis by blast
qed

text \<open>
  The claim as first stated bounds the distance to the weighted sum of the returned
  sub-scores by 0.05. Five resolved projects, all operational, 200 projects, 9 regions,
  8 fuel types, no active project, an average of 1273.12 days and 10.028 years give the
  composite 77.6, while the returned sub-scores weigh to 77.545.
\<close>

lemma cx_round_100: "py_round 100 1 = 100" by (simp add: py_round_def round_half_even_def)
lemma cx_round_0: "py_round 0 1 = 0" by (simp add: py_round_def round_half_even_def)
lemma cx_round_timeline: "py_round (5024 / 100) 1 = 502 / 10" by (simp add: py_round_def round_half_even_def)
lemma cx_round_depth: "py_round (5014 / 100) 1 = 501 / 10" by (simp add: py_round_def round_half_even_def)
lemma cx_round_composite: "py_round (77555 / 1000) 1 = 776 / 10" by (simp add: py_round_def round_half_even_def)
lemma cx_round_days: "py_round (127312 / 100) 1 = 12731 / 10" by (simp add: py_round_def round_half_even_def)
lemma cx_round_years: "py_round (10028 / 1000) 1 = 10" by (simp add: py_round_def round_half_even_def)
lemma cx_round_rate: "py_round 1 4 = 1" by (simp add: py_round_def round_half_even_def)

lemma cx_volume: "score_volume 200 = 100" by (simp add: score_volume_cap)
lemma cx_pipeline: "score_pipeline 0 = 0" by (simp add: score_pipeline_def)
lemma cx_breadth: "score_breadth 9 = 100" by (simp add: score_breadth_cap)
lemma cx_diversity: "score_diversity 8 = 100" by (simp add: score_diversity_def FUEL_TYPES_MAX_def)
lemma cx_completion: "score_completion_rate 5 0 = 100" by (simp add: score_completion_rate_def)
lemma cx_timeline: "score_timeline (Some (127312 / 100)) = 5024 / 100"
  by (simp add: score_timeline_def TIMELINE_EXCELLENT_def TIMELINE_POOR_def)
lemma cx_depth: "score_depth (10028 / 1000) = 5014 / 100"
  by (simp add: score_depth_def DEPTH_MAX_def)
lemma cx_weighted_sum: "weighted_sum 100 (5024 / 100) 100 100 100 0 (5014 / 100) = 77555 / 1000"
  by (simp add: weighted_sum_eq)

lemma cx_gate: "((5::int) + 0 < 5) = False" by simp
lemma cx_resolved: "((5::int) + 0 \<noteq> 0) = True" by simp
lemma cx_rate: "real_of_int 5 / real_of_int (5 + 0) = 1" by simp
lemma cx_days_nonzero: "((127312 / 100 :: real) \<noteq> 0) = True" by simp

theorem C3_rounded_sum_counterexample:
  "compute_score \<lparr> operational = 5, withdrawn = 0, total_projects = 200,
      avg_timeline_days = Some (127312 / 100), num_regions = 9, num_fuel_types = 8,
      active_projects = 0, years_since_first = 10028 / 1000 \<rparr>
   = Some \<lparr> score = 776 / 10, completion_rate = 1, completion_rate_score = 100,
        avg_timeline_days = Some (12731 / 10), timeline_score = 502 / 10,
        project_volume = 200, volume_score = 100,
        regional_breadth = 9, breadth_score = 100,
        tech_diversity = 8, diversity_score = 100,
        active_pipeline = 0, pipeline_score = 0,
        track_record_years = 10, depth_score = 501 / 10 \<rparr>
   \<and> \<not> \<bar>776 / 10 - weighted_sum 100 (502 / 10) 100 100 100 0 (501 / 10)\<bar> \<le> 5 / 100"
proof
  show "compute_score \<lparr> operational = 5, withdrawn = 0, total_projects = 200,
      avg_timeline_days = Some (127312 / 100), num_regions = 9, num_fuel_types = 8,
      active_projects = 0, years_since_first = 10028 / 1000 \<rparr>
   = Some \<lparr> score = 776 / 10, completion_rate = 1, completion_rate_score = 100,
        avg_timeline_days = Some (12731 / 10), timeline_score = 502 / 10,
        project_volume = 200, volume_score = 100,
        regional_breadth = 9, breadth_score = 100,
        tech_diversity = 8, diversity_score = 100,
        active_pipeline = 0, pipeline_score = 0,
        track_record_years = 10, depth_score = 501 / 10 \<rparr>"
    unfolding compute_score_def Let_def
    by (simp only: ScoringInput.select_convs cx_gate cx_resolved cx_rate cx_days_nonzero if_True if_False option.case
        cx_volume cx_pipeline cx_breadth cx_diversity cx_completion cx_timeline cx_depth cx_weighted_sum cx_round_100 cx_round_0 cx_round_timeline cx_round_depth cx_round_composite cx_round_days cx_round_years cx_round_rate)
  show "\<not> \<bar>776 / 10 - weighted_sum 100 (502 / 10) 100 100 100 0 (501 / 10)\<bar> \<le> 5 / 100"
    by (simp add: weighted_sum_eq)
qed

section \<open>Scenario A\<close>

text \<open>
  The two logarithmic sub-scores of the scenario are ratios of logarithms; they are
  enclosed between rationals by comparing integer powers.
\<close>

lemma ln_pow_less:
  fixes a b :: real
  assumes "0 < a" "0 < b" "a ^ p < b ^ q"
  shows "real p * ln a < real q * ln b"
proof -
  have "ln (a ^ p) < ln (b ^ q)" using assms by simp
  then show ?thesis using assms(1,2) by (simp add: ln_realpow)
qed

lemma ln_ratio_bounds:
  fixes a b :: real
  assumes a: "1 < a" and b: "0 < b"
    and lo: "a ^ p < b ^ q" and hi: "b ^ q' < a ^ p'" and q: "0 < q" "0 < q'"
  shows "real p / real q < ln b / ln a \<and> ln b / ln a < real p' / real q'"
proof -
  have la: "0 < ln a" using a by simp
  have 1: "real p * ln a < real q * ln b" using a b lo by (intro ln_pow_less) simp_all
  have 2: "real q' * ln b < real p' * ln a" using a b hi by (intro ln_pow_less) simp_all
  have "real p / real q < ln b / ln a"
    using 1 la q by (simp add: field_simps)
  moreover have "ln b / ln a < real p' / real q'"
    using 2 la q by (simp add: field_simps)
  ultimately show ?thesis by blast
qed

lemma volume_ratio_10: "33 / 73 < ln 11 / ln (201::real) \<and> ln 11 / ln (201::real) < 19 / 42"
  using ln_ratio_bounds [of 201 11 33 73 42 19] by simp

lemma pipeline_ratio_5: "41 / 90 < ln 6 / ln (51::real) \<and> ln 6 / ln (51::real) < 31 / 68"
  using ln_ratio_bounds [of 51 6 41 90 68 31] by simp

lemma score_volume_10: "3300 / 73 < score_volume 10 \<and> score_volume 10 < 1900 / 42"
proof -
  have eq: "score_volume 10 = min 100 ((ln 11 / ln 201) * 100)"
    by (simp add: score_volume_def VOLUME_CAP_def log1p_def)
  show ?thesis unfolding eq using volume_ratio_10 by (simp add: min_def)
qed

lemma score_pipeline_5: "4100 / 90 < score_pipeline 5 \<and> score_pipeline 5 < 3100 / 68"
proof -
  have eq: "score_pipeline 5 = min 100 ((ln 6 / ln 51) * 100)"
    by (simp add: score_pipeline_def PIPELINE_CAP_def log1p_def)
  show ?thesis unfolding eq using pipeline_ratio_5 by (simp add: min_def)
qed

lemma py_round1_between:
  "of_int k - 1 / 2 < v * 10 \<Longrightarrow> v * 10 < of_int k + 1 / 2 \<Longrightarrow> py_round v 1 = of_int k / 10"
  using py_round_nearest [of k v 1] by simp

lemma sa_gate: "((8::int) + 2 < 5) = False" by simp
lemma sa_resolved: "((8::int) + 2 \<noteq> 0) = True" by simp
lemma sa_days_nonzero: "((600::real) \<noteq> 0) = True" by simp

lemma sa_completion: "score_completion_rate 8 2 = 80"
  by (simp add: score_completion_rate_def)
lemma sa_timeline: "score_timeline (Some 600) = 6360 / 73"
  by (simp add: score_timeline_def TIMELINE_EXCELLENT_def TIMELINE_POOR_def)
lemma sa_breadth: "score_breadth 3 = 100 / 3"
  by (simp add: score_breadth_def REGIONS_MAX_def)
lemma sa_diversity: "score_diversity 2 = 25"
  by (simp add: score_diversity_def FUEL_TYPES_MAX_def)
lemma sa_depth: "score_depth 10 = 50"
  by (simp add: score_depth_def DEPTH_MAX_def)

lemma sa_round_rate: "py_round (real_of_int 8 / real_of_int (8 + 2)) 4 = 0.8"
  by (simp add: py_round_def round_half_even_def)
lemma sa_round_completion: "py_round (score_completion_rate 8 2) 1 = 80.0"
  unfolding sa_completion by (simp add: py_round_def round_half_even_def)
lemma sa_round_days: "py_round 600 1 = 600"
  by (simp add: py_round_def round_half_even_def)
lemma sa_round_timeline: "py_round (score_timeline (Some 600)) 1 = 87.1"
  unfolding sa_timeline by (simp add: py_round_def round_half_even_def)
lemma sa_round_volume: "py_round (score_volume 10) 1 = 45.2"
  using score_volume_10 py_round1_between [of 452 "score_volume 10"] by simp
lemma sa_round_breadth: "py_round (score_breadth 3) 1 = 33.3"
  unfolding sa_breadth by (simp add: py_round_def round_half_even_def)
lemma sa_round_diversity: "py_round (score_diversity 2) 1 = 25.0"
  unfolding sa_diversity by (simp add: py_round_def round_half_even_def)
lemma sa_round_pipeline: "py_round (score_pipeline 5) 1 = 45.6"
  using score_pipeline_5 py_round1_between [of 456 "score_pipeline 5"] by simp
lemma sa_round_years: "py_round 10 1 = 10"
  by (simp add: py_round_def round_half_even_def)
lemma sa_round_depth: "py_round (score_depth 10) 1 = 50.0"
  unfolding sa_depth by (simp add: py_round_def round_half_even_def)

lemma sa_round_composite:
  "py_round (weighted_sum (score_completion_rate 8 2) (score_timeline (Some 600))
      (score_volume 10) (score_breadth 3) (score_diversity 2) (score_pipeline 5)
      (score_depth 10)) 1 = 61.1"
proof -
  let ?v = "score_volume 10" and ?p = "score_pipeline 5"
  have eq: "weighted_sum (score_completion_rate 8 2) (score_timeline (Some 600))
      ?v (score_breadth 3) (score_diversity 2) ?p (score_depth 10)
    = (30 * 80 + 20 * (6360 / 73) + 15 * ?v + 10 * (100 / 3) + 10 * 25 + 10 * ?p + 5 * 50) / 100"
    unfolding sa_completion sa_timeline sa_breadth sa_diversity sa_depth weighted_sum_eq ..
  have lo: "of_int 611 - 1 / 2
      < (30 * 80 + 20 * (6360 / 73) + 15 * ?v + 10 * (100 / 3) + 10 * 25 + 10 * ?p + 5 * 50) / 100 * 10"
    using score_volume_10 score_pipeline_5 by simp
  have hi: "(30 * 80 + 20 * (6360 / 73) + 15 * ?v + 10 * (100 / 3) + 10 * 25 + 10 * ?p + 5 * 50) / 100 * 10
      < of_int 611 + 1 / 2"
    using score_volume_10 score_pipeline_5 by simp
  show ?thesis unfolding eq using py_round1_between [OF lo hi] by simp
qed

text \<open>
  C5. For operational=8, withdrawn=2, total_projects=10, avg_timeline_days=600,
  num_regions=3, num_fuel_types=2, active_projects=5, years_since_first=10, compute_score
  returns completion_rate 0.8, completion_rate_score 80.0, timeline_score 87.1,
  volume_score 45.2, breadth_score 33.3, diversity_score 25.0, pipeline_score 45.6,
  depth_score 50.0 and the composite score 61.1.
\<close>

theorem C5_scenario_A:
  "compute_score \<lparr> operational = 8, withdrawn = 2, total_projects = 10,
      avg_timeline_days = Some 600, num_regions = 3, num_fuel_types = 2,
      active_projects = 5, years_since_first = 10 \<rparr>
   = Some \<lparr> score = 61.1, completion_rate = 0.8, completion_rate_score = 80.0,
        avg_timeline_days = Some 600, timeline_score = 87.1,
        project_volume = 10, volume_score = 45.2,
        regional_breadth = 3, breadth_score = 33.3,
        tech_diversity = 2, diversity_score = 25.0,
        active_pipeline = 5, pipeline_score = 45.6,
        track_record_years = 10, depth_score = 50.0 \<rparr>"
  unfolding compute_score_def Let_def
  by (simp only: ScoringInput.select_convs sa_gate sa_resolved sa_days_nonzero
      if_True if_False option.case sa_round_rate sa_round_completion sa_round_days
      sa_round_timeline sa_round_volume sa_round_breadth sa_round_diversity
      sa_round_pipeline sa_round_years sa_round_depth sa_round_composite)

section \<open>Invariants of the aggregated metrics\<close>

lemma set_non_null: "set (non_null vs) = {v. Some v \<in> set vs}"
  by (induction vs rule: non_null.induct) auto

lemma developer_names_iff:
  "n \<in> set (developer_names rows)
   \<longleftrightarrow> n \<noteq> [] \<and> (\<exists>p \<in> set rows. developer_canonical p = Some n)"
  by (auto simp: developer_names_def set_non_null import_projects_def image_iff)

lemma developer_group_rows:
  "n \<noteq> [] \<Longrightarrow> developer_group rows n = filter (\<lambda>p. developer_canonical p = Some n) rows"
  unfolding developer_group_def import_projects_def filter_filter
  by (rule filter_cong) auto

lemma developers_member:
  "d \<in> set (developers rows) \<Longrightarrow>
   \<exists>n. n \<noteq> [] \<and> (\<exists>p \<in> set rows. developer_canonical p = Some n)
       \<and> d = base_row n (filter (\<lambda>p. developer_canonical p = Some n) rows)"
  by (auto simp: developers_def developer_metrics_def developer_names_iff developer_group_rows)

lemma status_counts_partition:
  "int (length g)
   = COUNT_FILTER (\<lambda>p. sql_eq (status_std p) ''Operational'') g
   + COUNT_FILTER (\<lambda>p. sql_eq (status_std p) ''Withdrawn'') g
   + COUNT_FILTER (\<lambda>p. sql_eq (status_std p) ''Active'') g
   + COUNT_FILTER (\<lambda>p. sql_eq (status_std p) ''Under Construction'') g
   + COUNT_FILTER (\<lambda>p. sql_eq (status_std p) ''Suspended'') g
   + int (length (filter (\<lambda>p. status_std p \<notin> {Some ''Operational'', Some ''Withdrawn'',
         Some ''Active'', Some ''Under Construction'', Some ''Suspended''}) g))"
  by (induction g) (auto simp: COUNT_FILTER_def sql_eq_def)

lemma COUNT_FILTER_nonneg: "0 \<le> COUNT_FILTER c g"
  by (simp add: COUNT_FILTER_def)

lemma COUNT_FILTER_rows:
  "COUNT_FILTER (\<lambda>p. sql_eq (status_std p) s) (filter P rows)
   = int (length (filter (\<lambda>p. P p \<and> status_std p = Some s) rows))"
  by (simp add: COUNT_FILTER_def sql_eq_def)

lemma COUNT_DISTINCT_card: "COUNT_DISTINCT vs = int (card {v. Some v \<in> set vs})"
  by (simp add: COUNT_DISTINCT_def length_remdups_card_conv set_non_null)

lemma set_DISTINCT_ORDERED: "set (DISTINCT_ORDERED vs) = {v. Some v \<in> set vs}"
  by (simp add: DISTINCT_ORDERED_def set_non_null)

lemma region_values:
  "{v. Some v \<in> set (map region (filter P rows))}
   = {v. \<exists>p \<in> set rows. P p \<and> region p = Some v}"
  by (auto simp: image_iff)

lemma fuel_type_values:
  "{v. Some v \<in> set (map type_std (typed_rows (filter P rows)))}
   = {v. \<exists>p \<in> set rows. P p \<and> type_std p = Some v}"
  by (auto simp: image_iff typed_rows_def)

lemma base_row_counts:
  "name (base_row n g) = n"
  "DeveloperMetrics.total_projects (base_row n g) = int (length g)"
  "DeveloperMetrics.operational (base_row n g)
     = COUNT_FILTER (\<lambda>p. sql_eq (status_std p) ''Operational'') g"
  "DeveloperMetrics.withdrawn (base_row n g)
     = COUNT_FILTER (\<lambda>p. sql_eq (status_std p) ''Withdrawn'') g"
  "active (base_row n g) = COUNT_FILTER (\<lambda>p. sql_eq (status_std p) ''Active'') g"
  "under_construction (base_row n g)
     = COUNT_FILTER (\<lambda>p. sql_eq (status_std p) ''Under Construction'') g"
  "suspended (base_row n g) = COUNT_FILTER (\<lambda>p. sql_eq (status_std p) ''Suspended'') g"
  "regions (base_row n g) = STRING_AGG (region_set g) '', ''"
  "DeveloperMetrics.num_regions (base_row n g) = COUNT_DISTINCT (map region g)"
  "fuel_types (base_row n g) = STRING_AGG (fuel_type_set g) '', ''"
  "DeveloperMetrics.num_fuel_types (base_row n g) = COUNT_DISTINCT (map type_std (typed_rows g))"
  by (simp_all add: base_row_def)

text \<open>
  C9. For every row of the developers table built from any list of project records:
  all counts are non-negative; total_projects is the number of the developer's records
  (at least one), and each of the five status counts is the number of the developer's
  records carrying exactly that label, so that total_projects is the sum of the five
  counts and of the number of records with any other (or no) status: such a record
  counts toward total_projects only, no record is counted twice, and the five counts
  sum to at most total_projects; num_regions and num_fuel_types are the cardinalities
  of the sets of region values and of fuel-type values among the developer's records,
  which are the sets the aggregator joins.
\<close>

theorem C9_metrics_invariants:
  "\<forall>d \<in> set (developers rows).
     0 \<le> DeveloperMetrics.total_projects d
     \<and> 0 \<le> DeveloperMetrics.operational d
     \<and> 0 \<le> DeveloperMetrics.withdrawn d
     \<and> 0 \<le> active d
     \<and> 0 \<le> under_construction d
     \<and> 0 \<le> suspended d
     \<and> 0 \<le> DeveloperMetrics.num_regions d
     \<and> 0 \<le> DeveloperMetrics.num_fuel_types d
     \<and> DeveloperMetrics.operational d + DeveloperMetrics.withdrawn d + active d
         + under_construction d + suspended d \<le> DeveloperMetrics.total_projects d
     \<and> DeveloperMetrics.num_regions d
         = int (card (set (region_set (developer_group rows (name d)))))
     \<and> DeveloperMetrics.num_fuel_types d
         = int (card (set (fuel_type_set (developer_group rows (name d)))))
     \<and> name d \<noteq> []
     \<and> 1 \<le> DeveloperMetrics.total_projects d
     \<and> DeveloperMetrics.total_projects d
         = int (length (filter (\<lambda>p. developer_canonical p = Some (name d)) rows))
     \<and> DeveloperMetrics.operational d
         = int (length (filter (\<lambda>p. developer_canonical p = Some (name d)
              \<and> status_std p = Some ''Operational'') rows))
     \<and> DeveloperMetrics.withdrawn d
         = int (length (filter (\<lambda>p. developer_canonical p = Some (name d)
              \<and> status_std p = Some ''Withdrawn'') rows))
     \<and> active d
         = int (length (filter (\<lambda>p. developer_canonical p = Some (name d)
              \<and> status_std p = Some ''Active'') rows))
     \<and> under_construction d
         = int (length (filter (\<lambda>p. developer_canonical p = Some (name d)
              \<and> status_std p = Some ''Under Construction'') rows))
     \<and> suspended d
         = int (length (filter (\<lambda>p. developer_canonical p = Some (name d)
              \<and> status_std p = Some ''Suspended'') rows))
     \<and> DeveloperMetrics.total_projects d
         = DeveloperMetrics.operational d + DeveloperMetrics.withdrawn d + active d
           + under_construction d + suspended d
           + int (length (filter (\<lambda>p. developer_canonical p = Some (name d)
               \<and> status_std p \<notin> {Some ''Operational'', Some ''Withdrawn'', Some ''Active'',
                    Some ''Under Construction'', Some ''Suspended''}) rows))
     \<and> DeveloperMetrics.num_regions d
         = int (card {v. \<exists>p \<in> set rows. developer_canonical p = Some (name d)
              \<and> region p = Some v})
     \<and> set (region_set (developer_group rows (name d)))
         = {v. \<exists>p \<in> set rows. developer_canonical p = Some (name d) \<and> region p = Some v}
     \<and> DeveloperMetrics.num_fuel_types d
         = int (card {v. \<exists>p \<in> set rows. developer_canonical p = Some (name d)
              \<and> type_std p = Some v})
     \<and> set (fuel_type_set (developer_group rows (name d)))
         = {v. \<exists>p \<in> set rows. developer_canonical p = Some (name d) \<and> type_std p = Some v}"
proof
  fix d
  assume "d \<in> set (developers rows)"
  then obtain n where n: "n \<noteq> []"
    and ex: "\<exists>p \<in> set rows. developer_canonical p = Some n"
    and d: "d = base_row n (filter (\<lambda>p. developer_canonical p = Some n) rows)"
    using developers_member by blast
  let ?P = "\<lambda>p. developer_canonical p = Some n"
  let ?g = "filter ?P rows"
  note f = base_row_counts [of n ?g]
  have nm: "name d = n" unfolding d by (rule f)
  have grp: "developer_group rows n = ?g" using n by (rule developer_group_rows)
  have tot: "DeveloperMetrics.total_projects d = int (length ?g)" unfolding d by (rule f)
  have pos: "1 \<le> DeveloperMetrics.total_projects d"
  proof -
    from ex have "?g \<noteq> []" by (simp add: filter_empty_conv)
    then have "0 < length ?g" by simp
    then show ?thesis unfolding tot by linarith
  qed
  have c1: "DeveloperMetrics.operational d
         = int (length (filter (\<lambda>p. ?P p \<and> status_std p = Some ''Operational'') rows))"
    and c2: "DeveloperMetrics.withdrawn d
         = int (length (filter (\<lambda>p. ?P p \<and> status_std p = Some ''Withdrawn'') rows))"
    and c3: "active d
         = int (length (filter (\<lambda>p. ?P p \<and> status_std p = Some ''Active'') rows))"
    and c4: "under_construction d
         = int (length (filter (\<lambda>p. ?P p \<and> status_std p = Some ''Under Construction'') rows))"
    and c5: "suspended d
         = int (length (filter (\<lambda>p. ?P p \<and> status_std p = Some ''Suspended'') rows))"
    unfolding d f by (rule COUNT_FILTER_rows)+
  have part: "DeveloperMetrics.total_projects d
         = DeveloperMetrics.operational d + DeveloperMetrics.withdrawn d + active d
           + under_construction d + suspended d
           + int (length (filter (\<lambda>p. ?P p
               \<and> status_std p \<notin> {Some ''Operational'', Some ''Withdrawn'', Some ''Active'',
                    Some ''Under Construction'', Some ''Suspended''}) rows))"
    using status_counts_partition [of ?g] unfolding d f filter_filter by simp
  have nonneg: "0 \<le> DeveloperMetrics.operational d" "0 \<le> DeveloperMetrics.withdrawn d"
    "0 \<le> active d" "0 \<le> under_construction d" "0 \<le> suspended d"
    unfolding c1 c2 c3 c4 c5 by simp_all
  have le: "DeveloperMetrics.operational d + DeveloperMetrics.withdrawn d + active d
         + under_construction d + suspended d \<le> DeveloperMetrics.total_projects d"
    using part by linarith
  have r1: "DeveloperMetrics.num_regions d
         = int (card {v. \<exists>p \<in> set rows. ?P p \<and> region p = Some v})"
    unfolding d f COUNT_DISTINCT_card region_values ..
  have r2: "set (region_set ?g) = {v. \<exists>p \<in> set rows. ?P p \<and> region p = Some v}"
    unfolding region_set_def set_DISTINCT_ORDERED region_values ..
  have t1: "DeveloperMetrics.num_fuel_types d
         = int (card {v. \<exists>p \<in> set rows. ?P p \<and> type_std p = Some v})"
    unfolding d f COUNT_DISTINCT_card fuel_type_values ..
  have t2: "set (fuel_type_set ?g) = {v. \<exists>p \<in> set rows. ?P p \<and> type_std p = Some v}"
    unfolding fuel_type_set_def set_DISTINCT_ORDERED fuel_type_values ..
  have r3: "DeveloperMetrics.num_regions d = int (card (set (region_set ?g)))"
    unfolding r1 r2 ..
  have t3: "DeveloperMetrics.num_fuel_types d = int (card (set (fuel_type_set ?g)))"
    unfolding t1 t2 ..
  have nn: "0 \<le> DeveloperMetrics.total_projects d" "0 \<le> DeveloperMetrics.num_regions d"
    "0 \<le> DeveloperMetrics.num_fuel_types d"
    using pos r1 t1 by simp_all
  show "0 \<le> DeveloperMetrics.total_projects d
     \<and> 0 \<le> DeveloperMetrics.operational d
     \<and> 0 \<le> DeveloperMetrics.withdrawn d
     \<and> 0 \<le> active d
     \<and> 0 \<le> under_construction d
     \<and> 0 \<le> suspended d
     \<and> 0 \<le> DeveloperMetrics.num_regions d
     \<and> 0 \<le> DeveloperMetrics.num_fuel_types d
     \<and> DeveloperMetrics.operational d + DeveloperMetrics.withdrawn d + active d
         + under_construction d + suspended d \<le> DeveloperMetrics.total_projects d
     \<and> DeveloperMetrics.num_regions d
         = int (card (set (region_set (developer_group rows (name d)))))
     \<and> DeveloperMetrics.num_fuel_types d
         = int (card (set (fuel_type_set (developer_group rows (name d)))))
     \<and> name d \<noteq> []
     \<and> 1 \<le> DeveloperMetrics.total_projects d
     \<and> DeveloperMetrics.total_projects d
         = int (length (filter (\<lambda>p. developer_canonical p = Some (name d)) rows))
     \<and> DeveloperMetrics.operational d
         = int (length (filter (\<lambda>p. developer_canonical p = Some (name d)
              \<and> status_std p = Some ''Operational'') rows))
     \<and> DeveloperMetrics.withdrawn d
         = int (length (filter (\<lambda>p. developer_canonical p = Some (name d)
              \<and> status_std p = Some ''Withdrawn'') rows))
     \<and> active d
         = int (length (filter (\<lambda>p. developer_canonical p = Some (name d)
              \<and> status_std p = Some ''Active'') rows))
     \<and> under_construction d
         = int (length (filter (\<lambda>p. developer_canonical p = Some (name d)
              \<and> status_std p = Some ''Under Construction'') rows))
     \<and> suspended d
         = int (length (filter (\<lambda>p. developer_canonical p = Some (name d)
              \<and> status_std p = Some ''Suspended'') rows))
     \<and> DeveloperMetrics.total_projects d
         = DeveloperMetrics.operational d + DeveloperMetrics.withdrawn d + active d
           + under_construction d + suspended d
           + int (length (filter (\<lambda>p. developer_canonical p = Some (name d)
               \<and> status_std p \<notin> {Some ''Operational'', Some ''Withdrawn'', Some ''Active'',
                    Some ''Under Construction'', Some ''Suspended''}) rows))
     \<and> DeveloperMetrics.num_regions d
         = int (card {v. \<exists>p \<in> set rows. developer_canonical p = Some (name d)
              \<and> region p = Some v})
     \<and> set (region_set (developer_group rows (name d)))
         = {v. \<exists>p \<in> set rows. developer_canonical p = Some (name d) \<and> region p = Some v}
     \<and> DeveloperMetrics.num_fuel_types d
         = int (card {v. \<exists>p \<in> set rows. developer_canonical p = Some (name d)
              \<and> type_std p = Some v})
     \<and> set (fuel_type_set (developer_group rows (name d)))
         = {v. \<exists>p \<in> set rows. developer_canonical p = Some (name d) \<and> type_std p = Some v}"
    unfolding nm grp
    using nn nonneg le r3 t3 n pos tot c1 c2 c3 c4 c5 part r1 r2 t1 t2
    by (intro conjI) assumption+
qed

lemma developer_metrics_name: "name (developer_metrics rows n) = n"
  by (simp add: developer_metrics_def base_row_counts(1))

theorem C9_metrics_invariants_witness:
  "developer_metrics
      [\<lparr> queue_id = Some ''Q1'', region = Some ''PJM'', developer_canonical = Some ''Acme'',
          type_std = Some ''Solar'', status_std = Some ''Operational'' \<rparr>,
       \<lparr> queue_id = Some ''Q2'', region = Some ''CAISO'', developer_canonical = Some ''Acme'',
          type_std = None, status_std = Some ''Cancelled'' \<rparr>] ''Acme''
    \<in> set (developers
      [\<lparr> queue_id = Some ''Q1'', region = Some ''PJM'', developer_canonical = Some ''Acme'',
          type_std = Some ''Solar'', status_std = Some ''Operational'' \<rparr>,
       \<lparr> queue_id = Some ''Q2'', region = Some ''CAISO'', developer_canonical = Some ''Acme'',
          type_std = None, status_std = Some ''Cancelled'' \<rparr>])
   \<and> DeveloperMetrics.total_projects (developer_metrics
      [\<lparr> queue_id = Some ''Q1'', region = Some ''PJM'', developer_canonical = Some ''Acme'',
          type_std = Some ''Solar'', status_std = Some ''Operational'' \<rparr>,
       \<lparr> queue_id = Some ''Q2'', region = Some ''CAISO'', developer_canonical = Some ''Acme'',
          type_std = None, status_std = Some ''Cancelled'' \<rparr>] ''Acme'') = 2
   \<and> DeveloperMetrics.operational (developer_metrics
      [\<lparr> queue_id = Some ''Q1'', region = Some ''PJM'', developer_canonical = Some ''Acme'',
          type_std = Some ''Solar'', status_std = Some ''Operational'' \<rparr>,
       \<lparr> queue_id = Some ''Q2'', region = Some ''CAISO'', developer_canonical = Some ''Acme'',
          type_std = None, status_std = Some ''Cancelled'' \<rparr>] ''Acme'') = 1
   \<and> DeveloperMetrics.withdrawn (developer_metrics
      [\<lparr> queue_id = Some ''Q1'', region = Some ''PJM'', developer_canonical = Some ''Acme'',
          type_std = Some ''Solar'', status_std = Some ''Operational'' \<rparr>,
       \<lparr> queue_id = Some ''Q2'', region = Some ''CAISO'', developer_canonical = Some ''Acme'',
          type_std = None, status_std = Some ''Cancelled'' \<rparr>] ''Acme'') = 0
   \<and> suspended (developer_metrics
      [\<lparr> queue_id = Some ''Q1'', region = Some ''PJM'', developer_canonical = Some ''Acme'',
          type_std = Some ''Solar'', status_std = Some ''Operational'' \<rparr>,
       \<lparr> queue_id = Some ''Q2'', region = Some ''CAISO'', developer_canonical = Some ''Acme'',
          type_std = None, status_std = Some ''Cancelled'' \<rparr>] ''Acme'') = 0"
proof -
  let ?rows = "[\<lparr> queue_id = Some ''Q1'', region = Some ''PJM'', developer_canonical = Some ''Acme'',
          type_std = Some ''Solar'', status_std = Some ''Operational'' \<rparr>,
       \<lparr> queue_id = Some ''Q2'', region = Some ''CAISO'', developer_canonical = Some ''Acme'',
          type_std = None, status_std = Some ''Cancelled'' \<rparr>]"
  let ?d = "developer_metrics ?rows ''Acme''"
  have mem: "?d \<in> set (developers ?rows)"
    by (simp add: developers_def developer_names_def import_projects_def)
  note inv = bspec [OF C9_metrics_invariants mem, unfolded developer_metrics_name]
  have "DeveloperMetrics.total_projects ?d
         = int (length (filter (\<lambda>p. developer_canonical p = Some ''Acme'') ?rows))"
    and "DeveloperMetrics.operational ?d
         = int (length (filter (\<lambda>p. developer_canonical p = Some ''Acme''
              \<and> status_std p = Some ''Operational'') ?rows))"
    and "DeveloperMetrics.withdrawn ?d
         = int (length (filter (\<lambda>p. developer_canonical p = Some ''Acme''
              \<and> status_std p = Some ''Withdrawn'') ?rows))"
    and "suspended ?d
         = int (length (filter (\<lambda>p. developer_canonical p = Some ''Acme''
              \<and> status_std p = Some ''Suspended'') ?rows))"
    using inv by blast+
  then show ?thesis using mem by simp
qed

section \<open>Records without a fuel type\<close>








end
